theory Spec2Isabelle
  imports Complex_Main
begin

section \<open>JavaScript values\<close>

text \<open>
  The fields of a tab object and of a settings payload are untyped JavaScript values.
  Only the primitives are needed: the test \<open>x !== undefined\<close> is \<open>x \<noteq> JUndefined\<close>,
  and strict equality \<open>===\<close> on these primitives is equality of the datatype (numbers
  are integers here, as tab, group and window identifiers are, so there is no NaN).
\<close>

datatype jsval =
    JUndefined
  | JNull
  | JBool bool
  | JNum int
  | JStr string
  | JSymbol nat

datatype error = TypeError | Rejected

text \<open>Truthiness, as used by \<open>!x\<close> and \<open>x || y\<close>.\<close>

fun truthy :: "jsval \<Rightarrow> bool" where
  "truthy JUndefined = False"
| "truthy JNull = False"
| "truthy (JBool b) = b"
| "truthy (JNum n) = (n \<noteq> 0)"
| "truthy (JStr s) = (s \<noteq> [])"
| "truthy (JSymbol k) = True"

text \<open>Decimal rendering of a number, for template literals.\<close>

definition digit :: "nat \<Rightarrow> char" where
  "digit n = ''0123456789'' ! n"

function string_of_nat :: "nat \<Rightarrow> string" where
  "string_of_nat n =
     (if n < 10 then [digit n]
      else string_of_nat (n div 10) @ [digit (n mod 10)])"
  by pat_completeness auto
termination
  by (relation "measure (\<lambda>n. n)") auto

declare string_of_nat.simps [simp del]

definition string_of_int :: "int \<Rightarrow> string" where
  "string_of_int i =
     (if i < 0 then CHR ''-'' # string_of_nat (nat (- i)) else string_of_nat (nat i))"

text \<open>
  The conversion a template literal \<open>`${x}`\<close> applies to \<open>x\<close>. It throws a TypeError
  on a Symbol and on nothing else; \<open>undefined\<close> is rendered as the text "undefined".
\<close>

fun ToString :: "jsval \<Rightarrow> error + string" where
  "ToString JUndefined = Inr ''undefined''"
| "ToString JNull = Inr ''null''"
| "ToString (JBool b) = Inr (if b then ''true'' else ''false'')"
| "ToString (JNum n) = Inr (string_of_int n)"
| "ToString (JStr s) = Inr s"
| "ToString (JSymbol k) = Inl TypeError"

section \<open>Messages\<close>

text \<open>
  The payload of a \<open>SCROLL_EVENT\<close> is \<open>{percentage, pixel}\<close>; the relay spreads it into
  the payload of a \<open>SYNC_SCROLL\<close> and adds \<open>syncMode\<close>. JavaScript numbers are
  modelled as reals: rounding of doubles is not modelled.
\<close>

record ScrollMetrics =
  percentage :: real
  pixel :: real

record SyncCommand = ScrollMetrics +
  cmd_syncMode :: jsval

record SettingsUpdate =
  upd_enableSync :: jsval
  upd_syncMode :: jsval

datatype message =
    SCROLL_EVENT ScrollMetrics
  | SYNC_SCROLL SyncCommand
  | SETTINGS_UPDATED SettingsUpdate

section \<open>The background relay (background.js)\<close>

record tab =
  tab_id :: jsval
  windowId :: jsval
  splitViewId :: jsval
  groupId :: jsval
  index :: jsval

record settings =
  set_enableSync :: jsval
  set_syncMode :: jsval

text \<open>
  The browser as the relay sees it: the open tabs, which tab ids have a listening content
  script (\<open>chrome.tabs.sendMessage\<close> rejects for the others), whether
  \<open>chrome.tabs.query\<close> rejects, and what \<open>chrome.storage.sync.get\<close> yields
  (a rejection, or the stored fields with \<open>JUndefined\<close> for a key never saved).
\<close>

record browser =
  all_tabs :: "tab list"
  listening :: "jsval \<Rightarrow> bool"
  query_rejects :: bool
  stored :: "error + settings"

type_synonym delivered = "(jsval \<times> message) list"

text \<open>\<open>getSplitViewId(tab)\<close>. Only the third template literal is inside a \<open>try\<close>.\<close>

definition getSplitViewId :: "tab \<Rightarrow> error + jsval" where
  "getSplitViewId t =
     (if splitViewId t \<noteq> JUndefined then Inr (splitViewId t)
      else if groupId t \<noteq> JUndefined then
        (case ToString (groupId t) of
           Inl e \<Rightarrow> Inl e
         | Inr s \<Rightarrow> Inr (JStr (''group-'' @ s)))
      else
        (case ToString (index t) of
           Inl e \<Rightarrow> Inr JUndefined
         | Inr s \<Rightarrow> Inr (JStr (''pos-'' @ s))))"

text \<open>\<open>getSettings()\<close>: the defaults fill the keys that were never saved, and replace a failed read.\<close>

definition default_settings :: settings where
  "default_settings = \<lparr>set_enableSync = JBool True, set_syncMode = JStr ''percentage''\<rparr>"

definition getSettings :: "browser \<Rightarrow> settings" where
  "getSettings b =
     (case stored b of
        Inl e \<Rightarrow> default_settings
      | Inr s \<Rightarrow>
          \<lparr>set_enableSync =
             (if set_enableSync s = JUndefined then JBool True else set_enableSync s),
           set_syncMode =
             (if set_syncMode s = JUndefined then JStr ''percentage'' else set_syncMode s)\<rparr>)"

text \<open>\<open>isInSameSplitView(id1, id2)\<close>.\<close>

definition isInSameSplitView :: "jsval \<Rightarrow> jsval \<Rightarrow> bool" where
  "isInSameSplitView id1 id2 =
     (if id1 = JUndefined \<and> id2 = JUndefined then True
      else if (id1 = JUndefined \<and> id2 \<noteq> JUndefined) \<or> (id1 \<noteq> JUndefined \<and> id2 = JUndefined)
        then False
      else id1 = id2)"

text \<open>
  \<open>chrome.tabs.query({windowId: w})\<close> for the window id \<open>w\<close> of a tab: the tabs of
  window \<open>w\<close>, or a rejection.
  \<open>chrome.tabs.sendMessage(id, m)\<close>: the message reaches the tab, or the promise rejects
  and nothing is delivered.
\<close>

definition tabs_query :: "browser \<Rightarrow> jsval \<Rightarrow> error + tab list" where
  "tabs_query b w =
     (if query_rejects b then Inl Rejected
      else Inr (filter (\<lambda>t. windowId t = w) (all_tabs b)))"

definition sendMessage :: "browser \<Rightarrow> jsval \<Rightarrow> message \<Rightarrow> delivered \<Rightarrow> (error + unit) \<times> delivered" where
  "sendMessage b i m d =
     (if listening b i then (Inr (), d @ [(i, m)]) else (Inl Rejected, d))"

text \<open>
  The \<open>for (const tab of tabs)\<close> loop of \<open>relayScrollEventToTabs\<close>, with the inner
  \<open>try\<close>/\<open>catch\<close> around the send. The candidate's key is read as \<open>tab.splitViewId\<close>.
\<close>

text \<open>The payload \<open>{...message.payload, syncMode: syncMode}\<close> of the relayed message.\<close>

definition sync_command :: "ScrollMetrics \<Rightarrow> jsval \<Rightarrow> SyncCommand" where
  "sync_command payload syncMode =
     \<lparr>percentage = percentage payload, pixel = pixel payload, cmd_syncMode = syncMode\<rparr>"

fun relay_loop ::
  "browser \<Rightarrow> ScrollMetrics \<Rightarrow> jsval \<Rightarrow> jsval \<Rightarrow> jsval \<Rightarrow> tab list \<Rightarrow> delivered \<Rightarrow> delivered" where
  "relay_loop b payload sender_id senderSplitViewId syncMode [] d = d"
| "relay_loop b payload sender_id senderSplitViewId syncMode (t # ts) d =
     (if tab_id t = sender_id then relay_loop b payload sender_id senderSplitViewId syncMode ts d
      else if isInSameSplitView senderSplitViewId (splitViewId t) then
        (case sendMessage b (tab_id t) (SYNC_SCROLL (sync_command payload syncMode)) d of
           (Inr u, d') \<Rightarrow> relay_loop b payload sender_id senderSplitViewId syncMode ts d'
         | (Inl e, d') \<Rightarrow> relay_loop b payload sender_id senderSplitViewId syncMode ts d')
      else relay_loop b payload sender_id senderSplitViewId syncMode ts d)"

text \<open>
  \<open>relayScrollEventToTabs(message, sender, senderSplitViewId, syncMode)\<close>: the outer
  \<open>catch\<close> swallows a rejected query. The result pairs what the caller sees (an
  exception or a normal return) with the deliveries made.
\<close>

definition relayScrollEventToTabs ::
  "browser \<Rightarrow> ScrollMetrics \<Rightarrow> tab \<Rightarrow> jsval \<Rightarrow> jsval \<Rightarrow> delivered \<Rightarrow> (error + unit) \<times> delivered" where
  "relayScrollEventToTabs b payload sender_tab senderSplitViewId syncMode d =
     (case tabs_query b (windowId sender_tab) of
        Inl e \<Rightarrow> (Inr (), d)
      | Inr tabs \<Rightarrow>
          (Inr (), relay_loop b payload (tab_id sender_tab) senderSplitViewId syncMode tabs d))"

text \<open>
  \<open>handleScrollEvent(message, sender)\<close>. \<open>sender.tab\<close> is absent when the message does
  not come from a tab; reading a field of it then throws, and the \<open>catch\<close> swallows
  that as well as an exception of \<open>getSplitViewId\<close>.
\<close>

definition handleScrollEvent ::
  "browser \<Rightarrow> ScrollMetrics \<Rightarrow> tab option \<Rightarrow> delivered \<Rightarrow> (error + unit) \<times> delivered" where
  "handleScrollEvent b payload sender d =
     (let settings = getSettings b in
      if \<not> truthy (set_enableSync settings) then (Inr (), d)
      else
        (case sender of
           None \<Rightarrow> (Inr (), d)
         | Some sender_tab \<Rightarrow>
             (case getSplitViewId sender_tab of
                Inl e \<Rightarrow> (Inr (), d)
              | Inr senderSplitViewId \<Rightarrow>
                  (case relayScrollEventToTabs b payload sender_tab senderSplitViewId
                          (set_syncMode settings) d of
                     (Inl e, d') \<Rightarrow> (Inr (), d')
                   | (Inr u, d') \<Rightarrow> (Inr (), d')))))"

text \<open>The listener: only a \<open>SCROLL_EVENT\<close> is handled.\<close>

fun onMessage :: "browser \<Rightarrow> message \<Rightarrow> tab option \<Rightarrow> delivered \<Rightarrow> (error + unit) \<times> delivered" where
  "onMessage b (SCROLL_EVENT payload) sender d = handleScrollEvent b payload sender d"
| "onMessage b m sender d = (Inr (), d)"

section \<open>The content script (content.js)\<close>

record ScrollState =
  isSyncing :: bool
  enableSync :: jsval
  syncMode :: jsval
  isScrollScheduled :: bool
  syncTimeout :: nat

text \<open>
  One page context: the \<open>ScrollState\<close> object, the layout values the script reads
  (\<open>document.documentElement.scrollHeight\<close> and \<open>clientHeight\<close>, integers, and
  \<open>window.scrollY\<close>), and what the script has handed to the browser: the messages given
  to \<open>chrome.runtime.sendMessage\<close>, the targets given to \<open>window.scrollTo\<close>, the due
  times of the pending \<open>setTimeout\<close> callbacks in the order they were registered, the
  number of pending \<open>requestAnimationFrame\<close> callbacks, and the clock in milliseconds.
\<close>

record page =
  st :: ScrollState
  scrollHeight :: int
  clientHeight :: int
  scrollY :: real
  sent :: "message list"
  scrolledTo :: "real list"
  timeouts :: "nat list"
  frames :: nat
  now :: nat

definition initial_ScrollState :: ScrollState where
  "initial_ScrollState =
     \<lparr>isSyncing = False, enableSync = JBool True, syncMode = JStr ''percentage'',
      isScrollScheduled = False, syncTimeout = 50\<rparr>"

text \<open>The \<open>scroll\<close> listener installed by \<open>setupEventListeners\<close>.\<close>

definition onScroll :: "page \<Rightarrow> page" where
  "onScroll c =
     (if \<not> isScrollScheduled (st c)
      then c\<lparr>st := (st c)\<lparr>isScrollScheduled := True\<rparr>, frames := frames c + 1\<rparr>
      else c)"

definition calculateScrollMetrics :: "page \<Rightarrow> ScrollMetrics option" where
  "calculateScrollMetrics c =
     (let scrollHeight = scrollHeight c - clientHeight c in
      if scrollHeight \<le> 0 then None
      else Some \<lparr>percentage = scrollY c / real_of_int scrollHeight, pixel = scrollY c\<rparr>)"

text \<open>\<open>sendScrollEvent(metrics)\<close>: the message is handed over; a rejection is swallowed by \<open>.catch\<close>.\<close>

definition sendScrollEvent :: "ScrollMetrics \<Rightarrow> page \<Rightarrow> page" where
  "sendScrollEvent metrics c = c\<lparr>sent := sent c @ [SCROLL_EVENT metrics]\<rparr>"

definition handleUserScroll :: "page \<Rightarrow> page" where
  "handleUserScroll c =
     (if \<not> truthy (enableSync (st c)) \<or> isSyncing (st c)
      then c\<lparr>st := (st c)\<lparr>isScrollScheduled := False\<rparr>\<rparr>
      else
        (case calculateScrollMetrics c of
           None \<Rightarrow> c\<lparr>st := (st c)\<lparr>isScrollScheduled := False\<rparr>\<rparr>
         | Some scrollMetrics \<Rightarrow>
             (let c' = sendScrollEvent scrollMetrics c in
              c'\<lparr>st := (st c')\<lparr>isScrollScheduled := False\<rparr>\<rparr>)))"

text \<open>
  The same function as the sequence of steps it executes, in program order. \<open>||\<close>
  short-circuits, so \<open>isSyncing\<close> is tested only when \<open>enableSync\<close> is truthy.
\<close>

datatype step =
    Test_enableSync
  | Test_isSyncing
  | Call_calculateScrollMetrics
  | Call_sendScrollEvent ScrollMetrics
  | Assign_isScrollScheduled bool

definition handleUserScroll_steps :: "page \<Rightarrow> step list" where
  "handleUserScroll_steps c =
     (if \<not> truthy (enableSync (st c))
        then [Test_enableSync, Assign_isScrollScheduled False]
      else if isSyncing (st c)
        then [Test_enableSync, Test_isSyncing, Assign_isScrollScheduled False]
      else
        (case calculateScrollMetrics c of
           None \<Rightarrow>
             [Test_enableSync, Test_isSyncing, Call_calculateScrollMetrics,
              Assign_isScrollScheduled False]
         | Some scrollMetrics \<Rightarrow>
             [Test_enableSync, Test_isSyncing, Call_calculateScrollMetrics,
              Call_sendScrollEvent scrollMetrics, Assign_isScrollScheduled False]))"

fun exec_step :: "step \<Rightarrow> page \<Rightarrow> page" where
  "exec_step Test_enableSync c = c"
| "exec_step Test_isSyncing c = c"
| "exec_step Call_calculateScrollMetrics c = c"
| "exec_step (Call_sendScrollEvent m) c = sendScrollEvent m c"
| "exec_step (Assign_isScrollScheduled v) c = c\<lparr>st := (st c)\<lparr>isScrollScheduled := v\<rparr>\<rparr>"

definition calculateTargetScrollPosition :: "SyncCommand \<Rightarrow> page \<Rightarrow> real" where
  "calculateTargetScrollPosition payload c =
     (let currentSyncMode =
            (if truthy (cmd_syncMode payload) then cmd_syncMode payload else syncMode (st c)) in
      if currentSyncMode = JStr ''percentage'' then
        (let targetPercentage = percentage payload;
             scrollHeight = scrollHeight c - clientHeight c in
         targetPercentage * real_of_int scrollHeight)
      else pixel payload)"

text \<open>
  \<open>handleSyncScrollMessage(message)\<close>: the timer is registered for \<open>syncTimeout\<close> ms
  after the current time; no timer is ever cancelled.
\<close>

definition handleSyncScrollMessage :: "SyncCommand \<Rightarrow> page \<Rightarrow> page" where
  "handleSyncScrollMessage payload c =
     (if \<not> truthy (enableSync (st c)) then c
      else
        (let c1 = c\<lparr>st := (st c)\<lparr>isSyncing := True\<rparr>\<rparr>;
             targetPixel = calculateTargetScrollPosition payload c1;
             c2 = c1\<lparr>scrolledTo := scrolledTo c1 @ [targetPixel]\<rparr> in
         c2\<lparr>timeouts := timeouts c2 @ [now c2 + syncTimeout (st c2)]\<rparr>))"

definition handleSettingsUpdateMessage :: "SettingsUpdate \<Rightarrow> page \<Rightarrow> page" where
  "handleSettingsUpdateMessage payload c =
     (let c1 = (if upd_enableSync payload \<noteq> JUndefined
                then c\<lparr>st := (st c)\<lparr>enableSync := upd_enableSync payload\<rparr>\<rparr> else c) in
      if upd_syncMode payload \<noteq> JUndefined
      then c1\<lparr>st := (st c1)\<lparr>syncMode := upd_syncMode payload\<rparr>\<rparr> else c1)"

fun handleIncomingMessage :: "message \<Rightarrow> page \<Rightarrow> page" where
  "handleIncomingMessage (SYNC_SCROLL payload) c = handleSyncScrollMessage payload c"
| "handleIncomingMessage (SETTINGS_UPDATED payload) c = handleSettingsUpdateMessage payload c"
| "handleIncomingMessage (SCROLL_EVENT payload) c = c"

text \<open>
  The passage of time. The callback of every timer is \<open>ScrollState.isSyncing = false\<close>.
  \<open>advance t\<close> moves the clock to \<open>t\<close> and runs, in registration order, the callbacks
  that are due by then: each timer fires at its due time, the earliest the browser may
  run it.
\<close>

definition timeout_callback :: "page \<Rightarrow> page" where
  "timeout_callback c = c\<lparr>st := (st c)\<lparr>isSyncing := False\<rparr>\<rparr>"

definition advance :: "nat \<Rightarrow> page \<Rightarrow> page" where
  "advance t c =
     (let due = filter (\<lambda>d. d \<le> t) (timeouts c);
          c' = foldl (\<lambda>c d. timeout_callback c) c due in
      c'\<lparr>timeouts := filter (\<lambda>d. \<not> d \<le> t) (timeouts c), now := max (now c) t\<rparr>)"

text \<open>A message that arrives at time \<open>t\<close>.\<close>

definition receive_at :: "nat \<Rightarrow> message \<Rightarrow> page \<Rightarrow> page" where
  "receive_at t m c = handleIncomingMessage m (advance t c)"

text \<open>Running a list of steps from a page.\<close>

fun run_steps :: "step list \<Rightarrow> page \<Rightarrow> page" where
  "run_steps [] c = c"
| "run_steps (s # ss) c = run_steps ss (exec_step s c)"

section \<open>Example inputs\<close>

definition example_metrics :: ScrollMetrics where
  "example_metrics = \<lparr>percentage = 1 / 4, pixel = 250\<rparr>"

definition nothing_stored :: "error + settings" where
  "nothing_stored = Inr \<lparr>set_enableSync = JUndefined, set_syncMode = JUndefined\<rparr>"

text \<open>Two tabs of one window and one tab group, in a browser without split-view ids.\<close>

definition grouped_sender :: tab where
  "grouped_sender =
     \<lparr>tab_id = JNum 1, windowId = JNum 1, splitViewId = JUndefined, groupId = JNum 5,
      index = JNum 0\<rparr>"

definition grouped_sibling :: tab where
  "grouped_sibling =
     \<lparr>tab_id = JNum 2, windowId = JNum 1, splitViewId = JUndefined, groupId = JNum 5,
      index = JNum 1\<rparr>"

definition grouped_browser :: browser where
  "grouped_browser =
     \<lparr>all_tabs = [grouped_sender, grouped_sibling], listening = (\<lambda>i. True),
      query_rejects = False, stored = nothing_stored\<rparr>"

text \<open>Two tabs of one window that carry none of the three grouping signals.\<close>

definition bare_sender :: tab where
  "bare_sender =
     \<lparr>tab_id = JNum 1, windowId = JNum 1, splitViewId = JUndefined, groupId = JUndefined,
      index = JUndefined\<rparr>"

definition bare_other :: tab where
  "bare_other =
     \<lparr>tab_id = JNum 2, windowId = JNum 1, splitViewId = JUndefined, groupId = JUndefined,
      index = JUndefined\<rparr>"

definition bare_browser :: browser where
  "bare_browser =
     \<lparr>all_tabs = [bare_sender, bare_other], listening = (\<lambda>i. True),
      query_rejects = False, stored = nothing_stored\<rparr>"

text \<open>Three tabs of split view 7; the second one has gone and rejects every message.\<close>

definition split_sender :: tab where
  "split_sender =
     \<lparr>tab_id = JNum 1, windowId = JNum 1, splitViewId = JNum 7, groupId = JNum (- 1),
      index = JNum 0\<rparr>"

definition closed_tab :: tab where
  "closed_tab =
     \<lparr>tab_id = JNum 2, windowId = JNum 1, splitViewId = JNum 7, groupId = JNum (- 1),
      index = JNum 1\<rparr>"

definition open_tab :: tab where
  "open_tab =
     \<lparr>tab_id = JNum 3, windowId = JNum 1, splitViewId = JNum 7, groupId = JNum (- 1),
      index = JNum 2\<rparr>"

definition split_browser :: browser where
  "split_browser =
     \<lparr>all_tabs = [split_sender, closed_tab, open_tab], listening = (\<lambda>i. i \<noteq> JNum 2),
      query_rejects = False, stored = nothing_stored\<rparr>"

text \<open>
  A page of scrollable range 1000 scrolled to 250, a page with nothing to scroll, and the
  first page while a frame callback is pending and while a sync is being applied.
\<close>

definition example_page :: page where
  "example_page =
     \<lparr>st = initial_ScrollState, scrollHeight = 1600, clientHeight = 600, scrollY = 250,
      sent = [], scrolledTo = [], timeouts = [], frames = 0, now = 0\<rparr>"

definition short_page :: page where
  "short_page =
     \<lparr>st = initial_ScrollState, scrollHeight = 600, clientHeight = 600, scrollY = 0,
      sent = [], scrolledTo = [], timeouts = [], frames = 0, now = 0\<rparr>"

definition scheduled_page :: page where
  "scheduled_page = example_page\<lparr>st := initial_ScrollState\<lparr>isScrollScheduled := True\<rparr>\<rparr>"

definition syncing_page :: page where
  "syncing_page =
     example_page\<lparr>st := initial_ScrollState\<lparr>isSyncing := True, isScrollScheduled := True\<rparr>\<rparr>"

definition disabled_page :: page where
  "disabled_page =
     example_page\<lparr>st := initial_ScrollState\<lparr>enableSync := JBool False, isScrollScheduled := True\<rparr>\<rparr>"

definition pixel_mode_page :: page where
  "pixel_mode_page = example_page\<lparr>st := initial_ScrollState\<lparr>syncMode := JStr ''pixel''\<rparr>\<rparr>"

definition percentage_command :: SyncCommand where
  "percentage_command = \<lparr>percentage = 1 / 2, pixel = 5000, cmd_syncMode = JStr ''percentage''\<rparr>"

definition pixel_command :: SyncCommand where
  "pixel_command = \<lparr>percentage = 1 / 2, pixel = 5000, cmd_syncMode = JStr ''pixel''\<rparr>"

definition modeless_command :: SyncCommand where
  "modeless_command = \<lparr>percentage = 1 / 2, pixel = 5000, cmd_syncMode = JUndefined\<rparr>"

text \<open>Two sync commands, 30 ms apart, arriving at the first page.\<close>

definition two_syncs :: page where
  "two_syncs =
     receive_at 30 (SYNC_SCROLL percentage_command)
       (receive_at 0 (SYNC_SCROLL percentage_command) example_page)"

definition disable_only :: SettingsUpdate where
  "disable_only = \<lparr>upd_enableSync = JBool False, upd_syncMode = JUndefined\<rparr>"

section \<open>Properties of the relay\<close>

text \<open>
  The loop delivers, in tab order, to exactly the tabs that are not the sender, whose
  own \<open>splitViewId\<close> matches the sender's key, and that accept the message.
\<close>

lemma relay_loop_delivers:
  "relay_loop b payload sender_id key mode ts d =
     d @ map (\<lambda>t. (tab_id t, SYNC_SCROLL (sync_command payload mode)))
           (filter (\<lambda>t. tab_id t \<noteq> sender_id \<and> isInSameSplitView key (splitViewId t)
                        \<and> listening b (tab_id t)) ts)"
  by (induction ts arbitrary: d) (auto simp: sendMessage_def)

lemma relayScrollEventToTabs_returns:
  "fst (relayScrollEventToTabs b payload sender_tab key mode d) = Inr ()"
  by (simp add: relayScrollEventToTabs_def split: sum.splits)

lemma handleScrollEvent_returns: "fst (handleScrollEvent b payload sender d) = Inr ()"
  by (auto simp: handleScrollEvent_def Let_def split: option.splits sum.splits prod.splits)

text \<open>
  A candidate that matches a defined sender key has that key as its own split-view id, so
  it resolves to the sender's key: the relay never reaches a tab of a different key.
\<close>

lemma matching_tab_resolves_to_sender_key:
  "key \<noteq> JUndefined \<Longrightarrow> isInSameSplitView key (splitViewId t) \<Longrightarrow> getSplitViewId t = Inr key"
  by (auto simp: isInSameSplitView_def getSplitViewId_def split: if_splits)

text \<open>
  C1. The claim asks that every tab of the sender's window whose resolved group key equals
  the sender's resolved key is sent a SyncCommand. The relay resolves only the sender's
  key through \<open>getSplitViewId\<close>; a candidate is compared by its raw \<open>splitViewId\<close>.
  Two tabs of tab group 5 without split-view ids both resolve to the key "group-5", both
  listen, sync is enabled, and the relay sends nothing.
\<close>

theorem relay_skips_tab_with_equal_resolved_key:
  "getSplitViewId grouped_sender = Inr (JStr ''group-5'') \<and>
   getSplitViewId grouped_sibling = Inr (JStr ''group-5'') \<and>
   windowId grouped_sibling = windowId grouped_sender \<and>
   truthy (set_enableSync (getSettings grouped_browser)) \<and>
   handleScrollEvent grouped_browser example_metrics (Some grouped_sender) [] = (Inr (), [])"
  by (simp add: handleScrollEvent_def getSettings_def relayScrollEventToTabs_def tabs_query_def
      getSplitViewId_def grouped_sender_def grouped_sibling_def grouped_browser_def
      nothing_stored_def string_of_int_def string_of_nat.simps digit_def isInSameSplitView_def)

text \<open>
  C8. In one pass of \<open>relayScrollEventToTabs\<close>, a tab of the sender's window that is
  not the sender, matches the sender's key and accepts messages is delivered its
  SyncCommand whatever happens to the sends to the other tabs, and the function returns
  normally: no rejection reaches the caller.
\<close>

theorem relay_failure_isolated:
  assumes "\<not> query_rejects b"
    and "t \<in> set (all_tabs b)"
    and "windowId t = windowId sender_tab"
    and "tab_id t \<noteq> tab_id sender_tab"
    and "isInSameSplitView key (splitViewId t)"
    and "listening b (tab_id t)"
  shows "fst (relayScrollEventToTabs b payload sender_tab key mode d) = Inr () \<and>
         (tab_id t, SYNC_SCROLL (sync_command payload mode))
           \<in> set (snd (relayScrollEventToTabs b payload sender_tab key mode d))"
proof -
  let ?tabs = "filter (\<lambda>u. windowId u = windowId sender_tab) (all_tabs b)"
  from assms(1) have run:
    "relayScrollEventToTabs b payload sender_tab key mode d =
       (Inr (), relay_loop b payload (tab_id sender_tab) key mode ?tabs d)"
    by (simp add: relayScrollEventToTabs_def tabs_query_def)
  from assms(2,3) have "t \<in> set ?tabs" by simp
  with assms(4,5,6) have
    "t \<in> set (filter (\<lambda>u. tab_id u \<noteq> tab_id sender_tab \<and> isInSameSplitView key (splitViewId u)
                           \<and> listening b (tab_id u)) ?tabs)"
    by simp
  then have
    "(tab_id t, SYNC_SCROLL (sync_command payload mode))
       \<in> set (relay_loop b payload (tab_id sender_tab) key mode ?tabs d)"
    unfolding relay_loop_delivers by (simp add: image_iff) blast
  with run show ?thesis by simp
qed

theorem relay_failure_isolated_witness:
  "\<not> query_rejects split_browser \<and>
   open_tab \<in> set (all_tabs split_browser) \<and>
   windowId open_tab = windowId split_sender \<and>
   tab_id open_tab \<noteq> tab_id split_sender \<and>
   isInSameSplitView (JNum 7) (splitViewId open_tab) \<and>
   listening split_browser (tab_id open_tab) \<and>
   \<not> listening split_browser (tab_id closed_tab) \<and>
   fst (relayScrollEventToTabs split_browser example_metrics split_sender (JNum 7)
          (JStr ''percentage'') []) = Inr () \<and>
   (JNum 3, SYNC_SCROLL (sync_command example_metrics (JStr ''percentage'')))
     \<in> set (snd (relayScrollEventToTabs split_browser example_metrics split_sender (JNum 7)
                   (JStr ''percentage'') []))"
  using relay_failure_isolated [of split_browser open_tab split_sender "JNum 7"
      example_metrics "JStr ''percentage''" "[]"]
  by (simp add: split_browser_def open_tab_def split_sender_def closed_tab_def
      isInSameSplitView_def)

text \<open>
  C9. The claim asks that a sender with no split-view id, no tab-group id and no position
  index falls into the "ungrouped" bucket and reaches every other tab of its window. For
  such a sender \<open>getSplitViewId\<close> returns the defined string "pos-undefined": the
  template literal does not throw on \<open>undefined\<close>, so the \<open>catch\<close> that returns
  \<open>undefined\<close> is not taken. The key then matches no tab without a split-view id, and
  the relay sends nothing to the other tab of the window.
\<close>

theorem relay_bare_sender_reaches_nobody:
  "splitViewId bare_sender = JUndefined \<and> groupId bare_sender = JUndefined \<and>
   index bare_sender = JUndefined \<and>
   getSplitViewId bare_sender = Inr (JStr ''pos-undefined'') \<and>
   windowId bare_other = windowId bare_sender \<and>
   listening bare_browser (tab_id bare_other) \<and>
   handleScrollEvent bare_browser example_metrics (Some bare_sender) [] = (Inr (), [])"
  by (simp add: handleScrollEvent_def getSettings_def relayScrollEventToTabs_def tabs_query_def
      getSplitViewId_def bare_sender_def bare_other_def bare_browser_def nothing_stored_def
      isInSameSplitView_def)

section \<open>Properties of the content script\<close>

text \<open>Running the steps of the emission handler gives the handler's result.\<close>

lemma run_steps_handleUserScroll: "run_steps (handleUserScroll_steps c) c = handleUserScroll c"
  by (simp add: handleUserScroll_steps_def handleUserScroll_def Let_def split: option.splits)

text \<open>
  C2. While \<open>isSyncing\<close> is set, the scheduled emission handler hands no message to the
  outbound channel: the list of sent messages is unchanged.
\<close>

theorem no_emission_while_syncing:
  "isSyncing (st c) \<Longrightarrow> sent (handleUserScroll c) = sent c"
  by (simp add: handleUserScroll_def)

theorem no_emission_while_syncing_witness:
  "isSyncing (st syncing_page) \<and> truthy (enableSync (st syncing_page)) \<and>
   0 < scrollHeight syncing_page - clientHeight syncing_page \<and>
   sent (handleUserScroll syncing_page) = []"
  using no_emission_while_syncing [of syncing_page]
  by (simp add: syncing_page_def example_page_def initial_ScrollState_def)

text \<open>
  C3. With R = scrollHeight - clientHeight and y = scrollY: if R > 0 the metrics are
  exactly percentage = y / R and pixel = y, and these are what an enabled, not syncing
  page emits; if R \<le> 0 there are no metrics and nothing is emitted, whatever y is.
\<close>

theorem metrics_exact_or_absent:
  "(0 < scrollHeight c - clientHeight c \<longrightarrow>
      calculateScrollMetrics c =
        Some \<lparr>percentage = scrollY c / real_of_int (scrollHeight c - clientHeight c),
              pixel = scrollY c\<rparr>) \<and>
   (0 < scrollHeight c - clientHeight c \<and> truthy (enableSync (st c)) \<and> \<not> isSyncing (st c) \<longrightarrow>
      sent (handleUserScroll c) =
        sent c @ [SCROLL_EVENT
                    \<lparr>percentage = scrollY c / real_of_int (scrollHeight c - clientHeight c),
                     pixel = scrollY c\<rparr>]) \<and>
   (scrollHeight c - clientHeight c \<le> 0 \<longrightarrow>
      calculateScrollMetrics c = None \<and> sent (handleUserScroll c) = sent c)"
  by (simp add: calculateScrollMetrics_def handleUserScroll_def sendScrollEvent_def Let_def)

theorem metrics_exact_or_absent_witness:
  "0 < scrollHeight example_page - clientHeight example_page \<and>
   truthy (enableSync (st example_page)) \<and> \<not> isSyncing (st example_page) \<and>
   calculateScrollMetrics example_page = Some \<lparr>percentage = 1 / 4, pixel = 250\<rparr> \<and>
   sent (handleUserScroll example_page) = [SCROLL_EVENT \<lparr>percentage = 1 / 4, pixel = 250\<rparr>] \<and>
   scrollHeight short_page - clientHeight short_page \<le> 0 \<and>
   calculateScrollMetrics short_page = None \<and>
   sent (handleUserScroll short_page) = []"
  using metrics_exact_or_absent [of example_page] metrics_exact_or_absent [of short_page]
  by (simp add: example_page_def short_page_def initial_ScrollState_def)

text \<open>
  C4. \<open>calculateTargetScrollPosition\<close> follows the command's \<open>syncMode\<close> when the
  command carries one and the page's cached mode when it carries none. In percentage
  mode the target is the command's percentage times the receiving page's own range
  scrollHeight - clientHeight; in pixel mode it is the command's pixel value as it is,
  also when that lies beyond the receiving page's range.
\<close>

theorem target_position_by_mode:
  "(cmd_syncMode m = JStr ''percentage'' \<longrightarrow>
      calculateTargetScrollPosition m c =
        percentage m * real_of_int (scrollHeight c - clientHeight c)) \<and>
   (cmd_syncMode m = JStr ''pixel'' \<longrightarrow> calculateTargetScrollPosition m c = pixel m) \<and>
   (cmd_syncMode m = JUndefined \<and> syncMode (st c) = JStr ''percentage'' \<longrightarrow>
      calculateTargetScrollPosition m c =
        percentage m * real_of_int (scrollHeight c - clientHeight c)) \<and>
   (cmd_syncMode m = JUndefined \<and> syncMode (st c) = JStr ''pixel'' \<longrightarrow>
      calculateTargetScrollPosition m c = pixel m)"
  by (simp add: calculateTargetScrollPosition_def Let_def)

theorem target_position_by_mode_witness:
  "cmd_syncMode percentage_command = JStr ''percentage'' \<and>
   syncMode (st pixel_mode_page) = JStr ''pixel'' \<and>
   calculateTargetScrollPosition percentage_command pixel_mode_page = 500 \<and>
   cmd_syncMode pixel_command = JStr ''pixel'' \<and>
   syncMode (st example_page) = JStr ''percentage'' \<and>
   calculateTargetScrollPosition pixel_command example_page = 5000 \<and>
   cmd_syncMode modeless_command = JUndefined \<and>
   calculateTargetScrollPosition modeless_command example_page = 500 \<and>
   calculateTargetScrollPosition modeless_command pixel_mode_page = 5000"
  using target_position_by_mode [of percentage_command pixel_mode_page]
    target_position_by_mode [of pixel_command example_page]
    target_position_by_mode [of modeless_command example_page]
    target_position_by_mode [of modeless_command pixel_mode_page]
  by (simp add: percentage_command_def pixel_command_def modeless_command_def
      pixel_mode_page_def example_page_def initial_ScrollState_def)

text \<open>
  C5, as the claim states it: the assignment \<open>isScrollScheduled = false\<close> would be the
  first step of the handler, before the tests and the metrics computation. On a scrollable,
  enabled, not syncing page with a pending frame it is the fifth and last step, and the flag
  is still set when all the steps before it have run, the send included.
\<close>

theorem flag_not_cleared_first:
  "handleUserScroll_steps scheduled_page =
     [Test_enableSync, Test_isSyncing, Call_calculateScrollMetrics,
      Call_sendScrollEvent \<lparr>percentage = 1 / 4, pixel = 250\<rparr>, Assign_isScrollScheduled False] \<and>
   hd (handleUserScroll_steps scheduled_page) \<noteq> Assign_isScrollScheduled False \<and>
   isScrollScheduled (st (run_steps (butlast (handleUserScroll_steps scheduled_page)) scheduled_page)) \<and>
   sent (run_steps (butlast (handleUserScroll_steps scheduled_page)) scheduled_page) =
     [SCROLL_EVENT \<lparr>percentage = 1 / 4, pixel = 250\<rparr>]"
  by (simp add: handleUserScroll_steps_def scheduled_page_def example_page_def
      initial_ScrollState_def calculateScrollMetrics_def sendScrollEvent_def Let_def)

text \<open>
  C5, amended: in every execution of the scheduled emission handler the flag
  \<open>isScrollScheduled\<close> is cleared last. The handler starts with the \<open>enableSync\<close>
  test, the assignment \<open>isScrollScheduled = false\<close> is its final step on every branch
  and occurs nowhere before, so the tests, the metrics computation and the send, where
  they happen, all precede it.
\<close>

theorem flag_cleared_last:
  "hd (handleUserScroll_steps c) = Test_enableSync \<and>
   last (handleUserScroll_steps c) = Assign_isScrollScheduled False \<and>
   Assign_isScrollScheduled False \<notin> set (butlast (handleUserScroll_steps c)) \<and>
   isScrollScheduled (st (run_steps (butlast (handleUserScroll_steps c)) c)) =
     isScrollScheduled (st c)"
  by (simp add: handleUserScroll_steps_def sendScrollEvent_def split: option.splits)

text \<open>
  C6. The claim asks that a second sync command arriving within the first command's delay
  keeps \<open>isSyncing\<close> set until the delay counted from the second arrival is over. No
  timer is cancelled, so the first command's timer still fires. With commands at 0 ms and
  30 ms and the delay of 50 ms, timers are due at 50 and 80; at 50 ms the first one clears
  the flag although the second command's delay runs until 80 ms, and an emission handler
  running at 60 ms sends a \<open>SCROLL_EVENT\<close>.
\<close>

theorem stale_timer_ends_suppression_early:
  "isSyncing (st two_syncs) \<and>
   timeouts two_syncs = [50, 80] \<and>
   \<not> isSyncing (st (advance 50 two_syncs)) \<and>
   timeouts (advance 50 two_syncs) = [80] \<and>
   sent (handleUserScroll (advance 60 two_syncs)) =
     [SCROLL_EVENT \<lparr>percentage = 1 / 4, pixel = 250\<rparr>]"
  by (simp add: two_syncs_def receive_at_def advance_def handleSyncScrollMessage_def
      example_page_def initial_ScrollState_def percentage_command_def timeout_callback_def
      handleUserScroll_def calculateScrollMetrics_def sendScrollEvent_def Let_def)

text \<open>
  At 60 ms the guard of the emission handler is passed: sync is enabled and the flag is
  clear, 20 ms before the second command's delay is over.
\<close>

theorem stale_timer_ends_suppression_early_witness:
  "truthy (enableSync (st (advance 60 two_syncs))) \<and>
   \<not> isSyncing (st (advance 60 two_syncs)) \<and>
   now (advance 60 two_syncs) < 30 + syncTimeout (st two_syncs) \<and>
   sent (handleUserScroll (advance 60 two_syncs)) \<noteq> []"
  using stale_timer_ends_suppression_early
  by (simp add: two_syncs_def receive_at_def advance_def handleSyncScrollMessage_def
      example_page_def initial_ScrollState_def percentage_command_def timeout_callback_def
      Let_def)

text \<open>
  C7. A settings update writes exactly the fields its payload carries: a field that is
  absent (\<open>undefined\<close>) leaves the page's value as it was, a field that is present
  replaces it, and nothing else of the page changes. In particular an update that carries
  only \<open>enableSync\<close> leaves \<open>syncMode\<close> unchanged.
\<close>

theorem settings_update_is_partial:
  "(upd_enableSync p = JUndefined \<longrightarrow>
      enableSync (st (handleSettingsUpdateMessage p c)) = enableSync (st c)) \<and>
   (upd_enableSync p \<noteq> JUndefined \<longrightarrow>
      enableSync (st (handleSettingsUpdateMessage p c)) = upd_enableSync p) \<and>
   (upd_syncMode p = JUndefined \<longrightarrow>
      syncMode (st (handleSettingsUpdateMessage p c)) = syncMode (st c)) \<and>
   (upd_syncMode p \<noteq> JUndefined \<longrightarrow>
      syncMode (st (handleSettingsUpdateMessage p c)) = upd_syncMode p) \<and>
   isSyncing (st (handleSettingsUpdateMessage p c)) = isSyncing (st c) \<and>
   isScrollScheduled (st (handleSettingsUpdateMessage p c)) = isScrollScheduled (st c) \<and>
   syncTimeout (st (handleSettingsUpdateMessage p c)) = syncTimeout (st c) \<and>
   (handleSettingsUpdateMessage p c)\<lparr>st := st c\<rparr> = c"
  by (simp add: handleSettingsUpdateMessage_def Let_def)

theorem settings_update_is_partial_witness:
  "upd_enableSync disable_only = JBool False \<and> upd_syncMode disable_only = JUndefined \<and>
   enableSync (st (handleSettingsUpdateMessage disable_only pixel_mode_page)) = JBool False \<and>
   syncMode (st (handleSettingsUpdateMessage disable_only pixel_mode_page)) = JStr ''pixel'' \<and>
   upd_enableSync \<lparr>upd_enableSync = JUndefined, upd_syncMode = JStr ''pixel''\<rparr> = JUndefined \<and>
   enableSync (st (handleSettingsUpdateMessage
                     \<lparr>upd_enableSync = JUndefined, upd_syncMode = JStr ''pixel''\<rparr> example_page))
     = JBool True \<and>
   syncMode (st (handleSettingsUpdateMessage
                   \<lparr>upd_enableSync = JUndefined, upd_syncMode = JStr ''pixel''\<rparr> example_page))
     = JStr ''pixel''"
  using settings_update_is_partial [of disable_only pixel_mode_page]
    settings_update_is_partial
      [of "\<lparr>upd_enableSync = JUndefined, upd_syncMode = JStr ''pixel''\<rparr>" example_page]
  by (simp add: disable_only_def pixel_mode_page_def example_page_def initial_ScrollState_def)

text \<open>
  C10. Whatever branch the scheduled emission handler takes (sync disabled, syncing,
  nothing to scroll, or an emission), \<open>isScrollScheduled\<close> is false when it returns, so
  the next scroll notification sets the flag and requests a frame again.
\<close>

theorem handler_leaves_flag_clear:
  "isScrollScheduled (st (handleUserScroll c)) = False \<and>
   isScrollScheduled (st (onScroll (handleUserScroll c))) = True \<and>
   frames (onScroll (handleUserScroll c)) = frames (handleUserScroll c) + 1"
  by (simp add: handleUserScroll_def onScroll_def sendScrollEvent_def Let_def
      split: option.splits)

text \<open>The four branches: sync disabled, syncing, nothing to scroll, and an emission.\<close>

theorem handler_leaves_flag_clear_witness:
  "isScrollScheduled (st disabled_page) \<and> \<not> truthy (enableSync (st disabled_page)) \<and>
   \<not> isScrollScheduled (st (handleUserScroll disabled_page)) \<and>
   isScrollScheduled (st syncing_page) \<and> isSyncing (st syncing_page) \<and>
   \<not> isScrollScheduled (st (handleUserScroll syncing_page)) \<and>
   calculateScrollMetrics short_page = None \<and>
   \<not> isScrollScheduled (st (handleUserScroll (onScroll short_page))) \<and>
   isScrollScheduled (st scheduled_page) \<and>
   sent (handleUserScroll scheduled_page) = [SCROLL_EVENT \<lparr>percentage = 1 / 4, pixel = 250\<rparr>] \<and>
   \<not> isScrollScheduled (st (handleUserScroll scheduled_page)) \<and>
   frames (onScroll (handleUserScroll scheduled_page)) = 1"
  using handler_leaves_flag_clear [of disabled_page] handler_leaves_flag_clear [of syncing_page]
    handler_leaves_flag_clear [of "onScroll short_page"]
    handler_leaves_flag_clear [of scheduled_page]
  by (simp add: disabled_page_def syncing_page_def short_page_def scheduled_page_def
      example_page_def initial_ScrollState_def calculateScrollMetrics_def handleUserScroll_def
      sendScrollEvent_def onScroll_def Let_def)

end
